theory Spec2Isabelle
  imports Main "HOL-Library.Sublist"
begin

section \<open>Python values, exceptions and chat messages\<close>

text \<open>
  The handlers probe their inputs by attribute (\<^verbatim>\<open>hasattr\<close>, \<^verbatim>\<open>isinstance\<close>), so a
  Python value is modelled by what the code asks of it: whether it is a \<^verbatim>\<open>str\<close> (and
  then which), and otherwise only its truthiness. Strings are byte lists; the non-ASCII
  characters of the source's literals are written as their UTF-8 bytes.
\<close>

datatype pyval = PyStr string | PyOther bool

fun truthy :: "pyval \<Rightarrow> bool" where
  "truthy (PyStr s) = (s \<noteq> [])"
| "truthy (PyOther b) = b"

text \<open>An exception is modelled by its \<^verbatim>\<open>str(e)\<close>; only subclasses of \<^verbatim>\<open>Exception\<close>
  are modelled (what \<^verbatim>\<open>except Exception\<close> catches).\<close>

datatype py_exception = Exception (message: string)

datatype chat_message = ChatMessage (role: string) (content: string)

definition assistant :: "string \<Rightarrow> chat_message" where
  "assistant c = ChatMessage ''assistant'' c"

text \<open>\<^verbatim>\<open>acc += v\<close> on a \<^verbatim>\<open>str\<close> accumulator: a \<^verbatim>\<open>TypeError\<close> (here \<open>None\<close>) when \<open>v\<close>
  is not a string.\<close>

fun str_iadd :: "string \<Rightarrow> pyval \<Rightarrow> string option" where
  "str_iadd acc (PyStr s) = Some (acc @ s)"
| "str_iadd acc (PyOther b) = None"

section \<open>Stream events\<close>

text \<open>
  The payload object \<^verbatim>\<open>event.data\<close>: its class name \<^verbatim>\<open>type(data).__name__\<close>, and the
  attributes \<^verbatim>\<open>delta\<close> and \<^verbatim>\<open>content\<close> when it has them.
\<close>

datatype data = Data (data_type: string) (delta: "pyval option") (data_content: "pyval option")

text \<open>
  An event is either a plain \<^verbatim>\<open>str\<close> or an object, of which the code reads the
  attributes \<^verbatim>\<open>type\<close>, \<^verbatim>\<open>item\<close>, \<^verbatim>\<open>data\<close> and \<^verbatim>\<open>content\<close>; \<open>None\<close> is an absent
  attribute. A \<^verbatim>\<open>str\<close> has none of the four.
\<close>

datatype event =
    StrEvent string
  | ObjEvent "string option" bool "data option" "pyval option"

fun event_type :: "event \<Rightarrow> string option" where
  "event_type (StrEvent s) = None"
| "event_type (ObjEvent t i d c) = t"

fun event_has_item :: "event \<Rightarrow> bool" where
  "event_has_item (StrEvent s) = False"
| "event_has_item (ObjEvent t i d c) = i"

fun event_data :: "event \<Rightarrow> data option" where
  "event_data (StrEvent s) = None"
| "event_data (ObjEvent t i d c) = d"

fun event_content :: "event \<Rightarrow> pyval option" where
  "event_content (StrEvent s) = None"
| "event_content (ObjEvent t i d c) = c"

text \<open>The library's text delta: a \<^verbatim>\<open>raw_response_event\<close> carrying a
  \<^verbatim>\<open>ResponseTextDeltaEvent\<close> whose \<^verbatim>\<open>delta\<close> is the string \<open>d\<close>.\<close>

definition text_delta :: "string \<Rightarrow> event" where
  "text_delta d =
     ObjEvent (Some ''raw_response_event'') False
       (Some (Data ''ResponseTextDeltaEvent'' (Some (PyStr d)) None)) None"

text \<open>What \<^verbatim>\<open>stream_result.stream_events()\<close> delivers: the events in order, then either
  the end of the iteration (\<open>None\<close>) or an exception raised by the iterator.\<close>

datatype event_stream = EventStream (events: "event list") (failure: "py_exception option")

section \<open>The OpenAI host agent: \<^verbatim>\<open>get_response_from_agent\<close>\<close>

text \<open>One turn of the \<^verbatim>\<open>async for\<close> body: it raises, or it goes on with the new
  accumulated text, having yielded a message or not.\<close>

datatype step = Raised | Continue string "chat_message option"

definition append_and_yield :: "string \<Rightarrow> pyval \<Rightarrow> step" where
  "append_and_yield acc v =
     (case str_iadd acc v of
        None \<Rightarrow> Raised
      | Some acc' \<Rightarrow> Continue acc' (Some (assistant acc')))"

text \<open>The \<^verbatim>\<open>if\<close>/\<^verbatim>\<open>elif\<close> chain of lines 58 to 108, every test guarded by \<^verbatim>\<open>hasattr\<close>
  as in the source.\<close>

definition dispatch_event :: "string \<Rightarrow> event \<Rightarrow> step" where
  "dispatch_event acc e =
     (if event_type e = Some ''raw_response_event'' \<and> event_data e \<noteq> None then
        (case event_data e of
           None \<Rightarrow> Continue acc None
         | Some d \<Rightarrow>
             if data_type d = ''ResponseTextDeltaEvent'' \<and> delta d \<noteq> None then
               (case delta d of
                  None \<Rightarrow> Continue acc None
                | Some v \<Rightarrow> if truthy v then append_and_yield acc v else Continue acc None)
             else
               (case data_content d of
                  Some (PyStr s) \<Rightarrow> append_and_yield acc (PyStr s)
                | _ \<Rightarrow> Continue acc None))
      else if event_type e = Some ''agent_updated_stream_event'' then Continue acc None
      else
        (case event_content e of
           Some (PyStr s) \<Rightarrow> append_and_yield acc (PyStr s)
         | _ \<Rightarrow>
            (case e of
               StrEvent s \<Rightarrow> append_and_yield acc (PyStr s)
             | _ \<Rightarrow> Continue acc None)))"

text \<open>The whole loop body. Lines 54 and 55 read \<^verbatim>\<open>event.type\<close> and \<^verbatim>\<open>event.item\<close>
  without a guard: an \<^verbatim>\<open>AttributeError\<close> when the attribute is absent.\<close>

definition process_event :: "string \<Rightarrow> event \<Rightarrow> step" where
  "process_event acc e =
     (case event_type e of
        None \<Rightarrow> Raised
      | Some t \<Rightarrow>
          if t = ''run_item_stream_event'' \<and> \<not> event_has_item e then Raised
          else dispatch_event acc e)"

datatype loop_result =
  LoopResult (yielded: "chat_message list") (final_text: string) (raised: bool)

definition emit :: "chat_message option \<Rightarrow> loop_result \<Rightarrow> loop_result" where
  "emit y r =
     (case y of
        None \<Rightarrow> r
      | Some m \<Rightarrow> LoopResult (m # yielded r) (final_text r) (raised r))"

text \<open>The \<^verbatim>\<open>async for\<close> loop of lines 52 to 108 from accumulated text \<open>acc\<close>: the
  messages it yields, the accumulated text when it stops, and whether it stopped by an
  exception (of the body or of the iterator).\<close>

fun stream_loop :: "string \<Rightarrow> event list \<Rightarrow> py_exception option \<Rightarrow> loop_result" where
  "stream_loop acc [] f = LoopResult [] acc (f \<noteq> None)"
| "stream_loop acc (e # es) f =
     (case process_event acc e of
        Raised \<Rightarrow> LoopResult [] acc True
      | Continue acc' y \<Rightarrow> emit y (stream_loop acc' es f))"

text \<open>The object returned by \<^verbatim>\<open>Runner.run_streamed\<close>: its event stream, its
  \<^verbatim>\<open>result\<close> method when it has one, and its \<^verbatim>\<open>str\<close>. Awaiting \<^verbatim>\<open>result()\<close> raises, or
  returns a value with a truthiness and a \<^verbatim>\<open>str\<close>.\<close>

datatype result_method = ResultRaises | ResultReturns bool string

datatype stream_result =
  StreamResult (stream_events: event_stream) (result_attr: "result_method option")
    (str_of: string)

text \<open>The fallback of lines 114 to 132, run when the loop raised.\<close>

definition fallback :: "stream_result \<Rightarrow> chat_message list" where
  "fallback sr =
     (case result_attr sr of
        Some ResultRaises \<Rightarrow> []
      | Some (ResultReturns t s) \<Rightarrow> if t then [assistant s] else []
      | None \<Rightarrow> [assistant (str_of sr)])"

definition no_response :: string where
  "no_response = ''No response received from the agent.''"

definition error_occurred :: string where
  "error_occurred =
     ''An error occurred while processing your request. Please check the server logs for details.''"

text \<open>What a generator did: the messages it yielded, and the exception that left it,
  if one did.\<close>

datatype chat_result =
  ChatResult (replies: "chat_message list") (propagated: "py_exception option")

text \<open>The body of the outer \<^verbatim>\<open>try\<close> (lines 37 to 142). \<^verbatim>\<open>Runner.run_streamed\<close> is the
  parameter \<open>run_streamed\<close>: given the message it raises or returns a stream result.\<close>

definition response_body ::
  "(string \<Rightarrow> py_exception + stream_result) \<Rightarrow> string \<Rightarrow> chat_result" where
  "response_body run_streamed msg =
     (case run_streamed msg of
        Inl e \<Rightarrow> ChatResult [] (Some e)
      | Inr sr \<Rightarrow>
          (let lr = stream_loop [] (events (stream_events sr)) (failure (stream_events sr))
           in ChatResult
                (yielded lr
                 @ (if raised lr then fallback sr else [])
                 @ (if final_text lr = [] then [assistant no_response] else []))
                None))"

definition get_response_from_agent ::
  "(string \<Rightarrow> py_exception + stream_result) \<Rightarrow> string \<Rightarrow> chat_message list \<Rightarrow> chat_result"
  where
  "get_response_from_agent run_streamed msg history =
     (case response_body run_streamed msg of
        ChatResult ys None \<Rightarrow> ChatResult ys None
      | ChatResult ys (Some e) \<Rightarrow> ChatResult (ys @ [assistant error_occurred]) None)"

section \<open>The sports results agent: \<^verbatim>\<open>OpenAIWebSearchAgent\<close>\<close>

text \<open>The agent object built by \<^verbatim>\<open>initialize\<close>; \<^verbatim>\<open>self.agent\<close> is \<open>None\<close> before.\<close>

datatype agent = Agent (agent_name: string) (instructions: string) (tools: "string list")

text \<open>The dictionaries the agent returns, as association lists in the order of the
  source's literals. A value is a boolean flag or the content.\<close>

datatype dict_value = DBool bool | DContent pyval

type_synonym response_dict = "(string \<times> dict_value) list"

text \<open>
  \<^verbatim>\<open>invoke\<close>. \<^verbatim>\<open>Runner.run\<close> is the parameter \<open>run\<close>: its outcome may differ from one call
  to the next, so it is given the number of calls made so far, and \<^verbatim>\<open>invoke\<close> returns
  the number of calls made when it is done. It raises (\<open>Inl\<close>) or returns the final
  output. The result of \<^verbatim>\<open>invoke\<close> is itself an exception leaving it (\<open>Inl\<close>) or the
  dictionary it returns (\<open>Inr\<close>).
\<close>

definition invoke ::
  "agent option \<Rightarrow> (nat \<Rightarrow> agent \<Rightarrow> string \<Rightarrow> py_exception + string) \<Rightarrow> nat \<Rightarrow> string \<Rightarrow>
     string option \<Rightarrow> (py_exception + response_dict) \<times> nat" where
  "invoke self_agent run calls user_input session_id =
     (case self_agent of
        None \<Rightarrow>
          (Inr [(''is_task_complete'', DBool False),
                (''require_user_input'', DBool True),
                (''content'',
                 DContent (PyStr ''Agent not initialized. Please call initialize() first.''))],
           calls)
      | Some a \<Rightarrow>
          (case run calls a user_input of
             Inr final_output \<Rightarrow>
               (Inr [(''is_task_complete'', DBool True),
                     (''require_user_input'', DBool False),
                     (''content'', DContent (PyStr final_output))],
                Suc calls)
           | Inl e \<Rightarrow>
               (Inr [(''is_task_complete'', DBool False),
                     (''require_user_input'', DBool True),
                     (''content'',
                      DContent (PyStr (''Error processing request: '' @ message e)))],
                Suc calls)))"

text \<open>The body of the loop of \<^verbatim>\<open>stream\<close> (lines 127 to 143): the dictionary it yields
  for an event, if it yields one.\<close>

definition stream_event :: "event \<Rightarrow> response_dict option" where
  "stream_event e =
     (if event_type e = Some ''raw_response_event'' \<and> event_data e \<noteq> None then
        (case event_data e of
           None \<Rightarrow> None
         | Some d \<Rightarrow>
             if data_type d = ''ResponseTextDeltaEvent'' \<and> delta d \<noteq> None then
               (case delta d of
                  None \<Rightarrow> None
                | Some v \<Rightarrow>
                    if truthy v then
                      Some [(''is_task_complete'', DBool False),
                            (''require_user_input'', DBool False),
                            (''content'', DContent v)]
                    else None)
             else None)
      else None)"

fun stream_yields :: "event list \<Rightarrow> response_dict list" where
  "stream_yields [] = []"
| "stream_yields (e # es) =
     (case stream_event e of
        None \<Rightarrow> stream_yields es
      | Some d \<Rightarrow> d # stream_yields es)"

text \<open>\<^verbatim>\<open>stream\<close>: the dictionaries it yields, in order. \<^verbatim>\<open>Runner.run_streamed\<close> is the
  parameter \<open>run_streamed\<close>.\<close>

definition stream ::
  "agent option \<Rightarrow> (agent \<Rightarrow> string \<Rightarrow> py_exception + event_stream) \<Rightarrow> string \<Rightarrow>
     string option \<Rightarrow> response_dict list" where
  "stream self_agent run_streamed user_input session_id =
     (case self_agent of
        None \<Rightarrow>
          [[(''is_task_complete'', DBool False),
            (''require_user_input'', DBool True),
            (''content'',
             DContent (PyStr ''Agent not initialized. Please call initialize() first.''))]]
      | Some a \<Rightarrow>
          (case run_streamed a user_input of
             Inl e \<Rightarrow>
               [[(''is_task_complete'', DBool False),
                 (''require_user_input'', DBool True),
                 (''content'',
                  DContent (PyStr (''Error processing request: '' @ message e)))]]
           | Inr s \<Rightarrow>
               stream_yields (events s)
               @ (case failure s of
                    None \<Rightarrow>
                      [[(''is_task_complete'', DBool True),
                        (''require_user_input'', DBool False),
                        (''content'', DContent (PyStr ''Task completed successfully.''))]]
                  | Some e \<Rightarrow>
                      [[(''is_task_complete'', DBool False),
                        (''require_user_input'', DBool True),
                        (''content'',
                         DContent (PyStr (''Error processing request: '' @ message e)))]])))"

section \<open>The Azure AI Foundry host agent: \<^verbatim>\<open>RoutingAgentApp\<close>\<close>

text \<open>The UTF-8 bytes of the cross mark, the check mark and the thinking face that the
  source's messages start with, and the line feed.\<close>

definition cross_mark :: string where
  "cross_mark = [CHR 0xE2, CHR 0x9D, CHR 0x8C]"

definition check_mark :: string where
  "check_mark = [CHR 0xE2, CHR 0x9C, CHR 0x85]"

definition thinking_face :: string where
  "thinking_face = [CHR 0xF0, CHR 0x9F, CHR 0xA4, CHR 0x94]"

definition LF :: char where
  "LF = CHR 0x0A"

text \<open>The routing agent is known by the addresses it was created with, and the Gradio
  interface by its title.\<close>

datatype routing_agent = RoutingAgent (remote_agent_addresses: "string list")

datatype blocks = Blocks (title: string)

record RoutingAgentApp =
  routing_agent :: "routing_agent option"
  demo :: "blocks option"

text \<open>What the application does to the world, in order: it prints, it creates the routing
  agent and its Azure agent (the network calls of the start), it releases the routing
  agent, it builds and launches the interface.\<close>

datatype effect =
    Print string
  | RoutingAgent_create "string list"
  | RoutingAgent_create_agent
  | RoutingAgent_cleanup
  | Create_gradio_interface
  | Launch

text \<open>\<^verbatim>\<open>cleanup_routing_agent\<close>; \<open>agent_cleanup\<close> is the exception
  \<^verbatim>\<open>self.routing_agent.cleanup()\<close> raises, if it raises.\<close>

definition cleanup_routing_agent ::
  "RoutingAgentApp \<Rightarrow> py_exception option \<Rightarrow> RoutingAgentApp \<times> effect list" where
  "cleanup_routing_agent self agent_cleanup =
     (case routing_agent self of
        None \<Rightarrow> (self, [])
      | Some ra \<Rightarrow>
          (self\<lparr>routing_agent := None\<rparr>,
           RoutingAgent_cleanup #
             (case agent_cleanup of
                None \<Rightarrow> [Print ''Routing agent cleaned up successfully.'']
              | Some e \<Rightarrow> [Print (''Error during cleanup: '' @ message e)])))"

text \<open>The body of the \<^verbatim>\<open>try\<close> of \<^verbatim>\<open>RoutingAgentApp.get_response_from_agent\<close> (lines 77
  to 96). \<^verbatim>\<open>process_user_message\<close> is a parameter: it raises, or returns \<^verbatim>\<open>None\<close> or a
  string.\<close>

definition app_response_body ::
  "(string \<Rightarrow> py_exception + string option) \<Rightarrow> string \<Rightarrow> chat_result" where
  "app_response_body process_user_message msg =
     (let processing = assistant (thinking_face @ '' **Processing your request...**'') in
      case process_user_message msg of
        Inl e \<Rightarrow> ChatResult [processing] (Some e)
      | Inr response \<Rightarrow>
          (case response of
             None \<Rightarrow>
               ChatResult
                 [processing,
                  assistant (cross_mark @ '' **Error**: No response received from the agent.'')]
                 None
           | Some r \<Rightarrow>
               if r \<noteq> [] then ChatResult [processing, assistant r] None
               else
                 ChatResult
                   [processing,
                    assistant (cross_mark @ '' **Error**: No response received from the agent.'')]
                   None))"

definition RoutingAgentApp_get_response_from_agent ::
  "RoutingAgentApp \<Rightarrow> (string \<Rightarrow> py_exception + string option) \<Rightarrow> string \<Rightarrow>
     chat_message list \<Rightarrow> chat_result" where
  "RoutingAgentApp_get_response_from_agent self process_user_message msg history =
     (case routing_agent self of
        None \<Rightarrow>
          ChatResult
            [assistant
               (cross_mark
                @ '' **Error**: Routing agent not initialized. Please restart the application.'')]
            None
      | Some ra \<Rightarrow>
          (case app_response_body process_user_message msg of
             ChatResult ys None \<Rightarrow> ChatResult ys None
           | ChatResult ys (Some e) \<Rightarrow>
               ChatResult
                 (ys @ [assistant
                          (cross_mark @ '' **An error occurred**: '' @ message e @ [LF, LF]
                           @ ''Please check the server logs for details.'')])
                 None))"

subsection \<open>Start-up: \<^verbatim>\<open>run\<close>\<close>

text \<open>The environment is a map from names to values; \<^verbatim>\<open>os.getenv(var)\<close> is falsy when
  the variable is unset or empty.\<close>

definition getenv_truthy :: "(string \<rightharpoonup> string) \<Rightarrow> string \<Rightarrow> bool" where
  "getenv_truthy env var = (case env var of None \<Rightarrow> False | Some v \<Rightarrow> v \<noteq> [])"

definition getenv_default :: "(string \<rightharpoonup> string) \<Rightarrow> string \<Rightarrow> string \<Rightarrow> string" where
  "getenv_default env var d = (case env var of None \<Rightarrow> d | Some v \<Rightarrow> v)"

definition required_env_vars :: "string list" where
  "required_env_vars = [''AZURE_AI_AGENT_ENDPOINT'', ''AZURE_AI_AGENT_MODEL_DEPLOYMENT_NAME'']"

definition app_creds :: "string list" where
  "app_creds = [''AZURE_CLIENT_ID'', ''AZURE_CLIENT_SECRET'', ''AZURE_TENANT_ID'']"

definition missing_vars :: "(string \<rightharpoonup> string) \<Rightarrow> string list" where
  "missing_vars env = filter (\<lambda>var. \<not> getenv_truthy env var) required_env_vars"

text \<open>\<^verbatim>\<open>sep.join(xs)\<close>.\<close>

fun join :: "string \<Rightarrow> string list \<Rightarrow> string" where
  "join sep [] = []"
| "join sep [x] = x"
| "join sep (x # y # ys) = x @ sep @ join sep (y # ys)"

text \<open>What the world answers during one run: whether \<^verbatim>\<open>RoutingAgent.create\<close> raises,
  whether \<^verbatim>\<open>create_agent\<close> raises (else the name and id of the Azure agent), whether
  building or launching the interface raises, and whether the routing agent's
  \<^verbatim>\<open>cleanup\<close> raises.\<close>

datatype init_outcome =
    Create_raises py_exception
  | Create_agent_raises py_exception
  | Initialized string string

datatype ui_outcome = Interface_raises py_exception | Launch_raises py_exception | Launch_returns

datatype world =
  World (init: init_outcome) (ui: ui_outcome) (agent_cleanup_raises: "py_exception option")

text \<open>\<^verbatim>\<open>initialize_routing_agent\<close>: the application after it, what it did, and the
  exception it re-raises.\<close>

definition initialize_routing_agent ::
  "RoutingAgentApp \<Rightarrow> (string \<rightharpoonup> string) \<Rightarrow> init_outcome \<Rightarrow>
     RoutingAgentApp \<times> effect list \<times> py_exception option" where
  "initialize_routing_agent self env outcome =
     (let addresses =
            [getenv_default env ''SPORTS_RESULTS_URL'' ''http://localhost:10001'',
             getenv_default env ''SPORTS_NEWS_URL'' ''http://localhost:10002''];
          start = [Print ''Initializing Azure AI routing agent...'', RoutingAgent_create addresses]
      in case outcome of
           Create_raises e \<Rightarrow>
             (self,
              start @ [Print (''Failed to initialize routing agent: '' @ message e)],
              Some e)
         | Create_agent_raises e \<Rightarrow>
             (self\<lparr>routing_agent := Some (RoutingAgent addresses)\<rparr>,
              start @ [RoutingAgent_create_agent,
                       Print (''Failed to initialize routing agent: '' @ message e)],
              Some e)
         | Initialized nm ident \<Rightarrow>
             (self\<lparr>routing_agent := Some (RoutingAgent addresses)\<rparr>,
              start @ [RoutingAgent_create_agent,
                       Print (''Azure AI routing agent initialized successfully with Name and ID: ''
                              @ nm @ '' - '' @ ident)],
              None))"

text \<open>The \<^verbatim>\<open>try\<close> of \<^verbatim>\<open>run\<close> (lines 177 to 189): every exception is caught and
  printed.\<close>

definition launch_interface :: "RoutingAgentApp \<Rightarrow> ui_outcome \<Rightarrow> RoutingAgentApp \<times> effect list"
  where
  "launch_interface self outcome =
     (case outcome of
        Interface_raises e \<Rightarrow>
          (self, [Create_gradio_interface, Print (''Error in main application: '' @ message e)])
      | Launch_raises e \<Rightarrow>
          (self\<lparr>demo := Some (Blocks ''Azure AI Routing Agent'')\<rparr>,
           [Create_gradio_interface, Print ''Launching Gradio interface...'', Launch,
            Print (''Error in main application: '' @ message e)])
      | Launch_returns \<Rightarrow>
          (self\<lparr>demo := Some (Blocks ''Azure AI Routing Agent'')\<rparr>,
           [Create_gradio_interface, Print ''Launching Gradio interface...'', Launch]))"

text \<open>\<^verbatim>\<open>run\<close>: the application when it is over, what it did in order, and the exception
  that left it, if one did.\<close>

definition run ::
  "RoutingAgentApp \<Rightarrow> (string \<rightharpoonup> string) \<Rightarrow> world \<Rightarrow>
     RoutingAgentApp \<times> effect list \<times> py_exception option" where
  "run self env w =
     (let has_app_creds = list_all (getenv_truthy env) app_creds;
          missing = missing_vars env
      in if missing \<noteq> [] then
           (self,
            [Print (cross_mark @ '' Missing required environment variables: ''
                    @ join '', '' missing),
             Print ''Please set these environment variables before running the application.''],
            None)
         else
           (let auth =
                  (if has_app_creds then
                     [Print (check_mark
                             @ '' Using Azure application (service principal) authentication'')]
                   else
                     [Print (check_mark @ '' Using DefaultAzureCredential authentication''),
                      Print (''   Make sure you're logged in with 'az login' or ''
                             @ ''have other valid credentials'')])
            in case initialize_routing_agent self env (init w) of
                 (self1, fx1, Some e) \<Rightarrow> (self1, auth @ fx1, Some e)
               | (self1, fx1, None) \<Rightarrow>
                   (case launch_interface self1 (ui w) of
                      (self2, fx2) \<Rightarrow>
                        (case cleanup_routing_agent self2 (agent_cleanup_raises w) of
                           (self3, fx3) \<Rightarrow>
                             (self3,
                              auth @ fx1 @ fx2 @ [Print ''Shutting down application...''] @ fx3
                              @ [Print ''Gradio application has been shut down.''],
                              None)))))"

section \<open>The agent cards of the remote agents\<close>

record agent_capabilities =
  streaming :: bool

record agent_skill =
  skill_id :: string
  skill_name :: string
  skill_description :: string
  tags :: "string list"
  examples :: "string list"

record agent_card =
  card_name :: string
  card_description :: string
  url :: string
  version :: string
  defaultInputModes :: "string list"
  defaultOutputModes :: "string list"
  capabilities :: agent_capabilities
  skills :: "agent_skill list"

text \<open>\<^verbatim>\<open>get_agent_card\<close> of the sports results agent.\<close>

definition get_agent_card_sports_results :: "string \<Rightarrow> int \<Rightarrow> agent_card" where
  "get_agent_card_sports_results host port =
     (let capabilities = \<lparr>streaming = True\<rparr>;
          skill_mcp_tools =
            \<lparr>skill_id = ''sports_results_agent'',
             skill_name = ''Sports Results Agent'',
             skill_description =
               ''Provides sports results from various sports leagues.  ''
               @ ''Include scores, who won, and other relevant information.'',
             tags = [''mlb'', ''nba'', ''nascar'', ''golf'', ''colege football''],
             examples =
               [''Show score for Pirates game last night'',
                ''What was the final score of the game 7 NBA finals and who won?'',
                ''Whow won the 2025 US Golf Open Championship and where was it played?'']\<rparr>
      in \<lparr>card_name = ''SportsResultsAgent'',
          card_description =
            ''This agent provides sports results for various sports leagues ''
            @ ''such as MLB, NBA, NASCAR, and Golf. '',
          url = ''http://localhost:10001/'',
          version = ''1.0.0'',
          defaultInputModes = [''text''],
          defaultOutputModes = [''text''],
          capabilities = capabilities,
          skills = [skill_mcp_tools]\<rparr>)"

text \<open>\<^verbatim>\<open>get_agent_card\<close> of the sports news agent.\<close>

definition get_agent_card_sports_news :: "string \<Rightarrow> int \<Rightarrow> agent_card" where
  "get_agent_card_sports_news host port =
     (let capabilities = \<lparr>streaming = True\<rparr>;
          skill_mcp_tools =
            \<lparr>skill_id = ''sports_news_agent'',
             skill_name = ''Sports News Agent'',
             skill_description = ''Provides sports news from the Yahoo sports rss feeds. '',
             tags = [''mlb'', ''nba'', ''nascar'', ''golf'', ''colege football''],
             examples =
               [''Show news for mlb (baseball)'',
                ''Fetch me the latest news for nascar'',
                ''Whats the latest news for golf'']\<rparr>
      in \<lparr>card_name = ''SportsNewsAgent'',
          card_description = ''This agent provides sports news for various sports leagues. '',
          url = ''http://localhost:10002/'',
          version = ''1.0.0'',
          defaultInputModes = [''text''],
          defaultOutputModes = [''text''],
          capabilities = capabilities,
          skills = [skill_mcp_tools]\<rparr>)"

text \<open>\<^verbatim>\<open>main\<close> of either server: the card it serves, and the host and port
  \<^verbatim>\<open>uvicorn.run\<close> binds.\<close>

definition main_sports_results :: "string \<Rightarrow> int \<Rightarrow> agent_card \<times> string \<times> int" where
  "main_sports_results host port = (get_agent_card_sports_results host port, host, port)"

definition main_sports_news :: "string \<Rightarrow> int \<Rightarrow> agent_card \<times> string \<times> int" where
  "main_sports_news host port = (get_agent_card_sports_news host port, host, port)"

section \<open>Properties of the aggregation loop\<close>

lemma emit_simps:
  "yielded (emit y r) = (case y of None \<Rightarrow> [] | Some m \<Rightarrow> [m]) @ yielded r"
  "final_text (emit y r) = final_text r"
  "raised (emit y r) = raised r"
  by (simp_all add: emit_def split: option.splits)

text \<open>A turn of the body that goes on yields nothing and keeps the text, or yields the
  new text, which extends the old one.\<close>

lemma append_and_yield_cases:
  assumes "append_and_yield acc v = Continue acc' y"
  shows "\<exists>s. acc' = acc @ s \<and> y = Some (assistant acc')"
  using assms by (cases v) (auto simp: append_and_yield_def)

lemma dispatch_event_cases:
  assumes "dispatch_event acc e = Continue acc' y"
  shows "(acc' = acc \<and> y = None) \<or> (\<exists>s. acc' = acc @ s \<and> y = Some (assistant acc'))"
  using assms
  by (auto simp: dispatch_event_def split: if_splits option.splits pyval.splits event.splits
      dest: append_and_yield_cases)

lemma process_event_cases:
  assumes "process_event acc e = Continue acc' y"
  shows "(acc' = acc \<and> y = None) \<or> (\<exists>s. acc' = acc @ s \<and> y = Some (assistant acc'))"
  using assms
  by (auto simp: process_event_def split: option.splits if_splits dest: dispatch_event_cases)

lemma yielded_extend_acc:
  "m \<in> set (yielded (stream_loop acc es f)) \<Longrightarrow> prefix acc (content m)"
proof (induction es arbitrary: acc)
  case Nil
  then show ?case by simp
next
  case (Cons e es)
  show ?case
  proof (cases "process_event acc e")
    case Raised
    with Cons.prems show ?thesis by simp
  next
    case (Continue acc' y)
    from process_event_cases [OF Continue]
    consider (keep) "acc' = acc" "y = None"
      | (grow) s where "acc' = acc @ s" "y = Some (assistant acc')"
      by blast
    then show ?thesis
    proof cases
      case keep
      with Cons.prems Continue have "m \<in> set (yielded (stream_loop acc es f))"
        by (simp add: emit_simps)
      then show ?thesis by (rule Cons.IH)
    next
      case grow
      with Cons.prems Continue
      have "m = assistant acc' \<or> m \<in> set (yielded (stream_loop acc' es f))"
        by (simp add: emit_simps)
      then show ?thesis
      proof
        assume "m = assistant acc'"
        with grow show ?thesis by (simp add: assistant_def)
      next
        assume "m \<in> set (yielded (stream_loop acc' es f))"
        then have "prefix acc' (content m)" by (rule Cons.IH)
        with grow show ?thesis by (auto simp: prefix_def)
      qed
    qed
  qed
qed

lemma yielded_prefix_chain:
  "sorted_wrt (\<lambda>a b. prefix (content a) (content b)) (yielded (stream_loop acc es f))"
proof (induction es arbitrary: acc)
  case Nil
  then show ?case by simp
next
  case (Cons e es)
  show ?case
  proof (cases "process_event acc e")
    case Raised
    then show ?thesis by simp
  next
    case (Continue acc' y)
    show ?thesis
    proof (cases y)
      case None
      with Continue Cons.IH [of acc'] show ?thesis by (simp add: emit_simps)
    next
      case (Some m)
      with process_event_cases [OF Continue] have m: "m = assistant acc'" by auto
      have "\<forall>b \<in> set (yielded (stream_loop acc' es f)). prefix (content m) (content b)"
        using yielded_extend_acc [of _ acc' es f] m by (simp add: assistant_def)
      with Continue Some Cons.IH [of acc'] show ?thesis by (simp add: emit_simps)
    qed
  qed
qed

lemma final_text_last_yield:
  "final_text (stream_loop acc es f) =
     (if yielded (stream_loop acc es f) = [] then acc
      else content (last (yielded (stream_loop acc es f))))"
proof (induction es arbitrary: acc)
  case Nil
  then show ?case by simp
next
  case (Cons e es)
  show ?case
  proof (cases "process_event acc e")
    case Raised
    then show ?thesis by simp
  next
    case (Continue acc' y)
    from process_event_cases [OF Continue]
    consider (keep) "acc' = acc" "y = None"
      | (grow) s where "acc' = acc @ s" "y = Some (assistant acc')"
      by blast
    then show ?thesis
    proof cases
      case keep
      with Continue Cons.IH [of acc] show ?thesis by (simp add: emit_simps)
    next
      case grow
      with Continue Cons.IH [of acc'] show ?thesis
        by (simp add: emit_simps assistant_def)
    qed
  qed
qed

lemma process_event_text_delta:
  "process_event acc (text_delta d) =
     (if d = [] then Continue acc None else Continue (acc @ d) (Some (assistant (acc @ d))))"
  by (simp add: process_event_def dispatch_event_def text_delta_def append_and_yield_def)

lemma final_text_text_deltas:
  "final_text (stream_loop acc (map text_delta ds) None) = acc @ concat ds"
  by (induction ds arbitrary: acc) (simp_all add: process_event_text_delta emit_simps)

lemma raised_text_deltas:
  "\<not> raised (stream_loop acc (map text_delta ds) None)"
  by (induction ds arbitrary: acc) (simp_all add: process_event_text_delta emit_simps)

lemma stream_event_text_delta:
  "stream_event (text_delta d) =
     (if d = [] then None
      else Some [(''is_task_complete'', DBool False),
                 (''require_user_input'', DBool False),
                 (''content'', DContent (PyStr d))])"
  by (simp add: stream_event_def text_delta_def)

lemma stream_yields_text_deltas:
  "stream_yields (map text_delta ds) =
     map (\<lambda>d. [(''is_task_complete'', DBool False),
                 (''require_user_input'', DBool False),
                 (''content'', DContent (PyStr d))])
       (filter (\<lambda>d. d \<noteq> []) ds)"
  by (induction ds) (simp_all add: stream_event_text_delta)

lemma stream_event_not_complete:
  "stream_event e = Some d \<Longrightarrow> map_of d ''is_task_complete'' = Some (DBool False)"
  by (auto simp: stream_event_def split: if_splits option.splits)

lemma stream_yields_not_complete:
  "list_all (\<lambda>d. map_of d ''is_task_complete'' = Some (DBool False)) (stream_yields es)"
  by (induction es) (auto split: option.splits dest: stream_event_not_complete)

lemma stream_butlast_not_complete:
  "list_all (\<lambda>d. map_of d ''is_task_complete'' = Some (DBool False))
     (butlast (stream ag rs u sid))"
  by (simp add: stream_def butlast_append stream_yields_not_complete
      split: option.splits sum.splits)

lemma replies_nonempty:
  "replies (get_response_from_agent rs msg h) \<noteq> []"
proof (cases "rs msg")
  case (Inl e)
  then show ?thesis by (simp add: get_response_from_agent_def response_body_def)
next
  case (Inr sr)
  define lr where "lr = stream_loop [] (events (stream_events sr)) (failure (stream_events sr))"
  have "yielded lr \<noteq> [] \<or> final_text lr = []"
    unfolding lr_def using final_text_last_yield [of "[]"] by metis
  with Inr show ?thesis
    by (auto simp: get_response_from_agent_def response_body_def Let_def lr_def)
qed

lemma not_propagated:
  "propagated (get_response_from_agent rs msg h) = None"
  by (simp add: get_response_from_agent_def response_body_def Let_def
      split: sum.splits chat_result.splits option.splits)

lemma yielded_role:
  "m \<in> set (yielded (stream_loop acc es f)) \<Longrightarrow> role m = ''assistant''"
proof (induction es arbitrary: acc)
  case Nil
  then show ?case by simp
next
  case (Cons e es)
  show ?case
  proof (cases "process_event acc e")
    case Raised
    with Cons.prems show ?thesis by simp
  next
    case (Continue acc' y)
    from process_event_cases [OF Continue] Cons.prems Continue Cons.IH [of acc']
    show ?thesis by (auto simp: emit_simps assistant_def)
  qed
qed

lemma fallback_role: "m \<in> set (fallback sr) \<Longrightarrow> role m = ''assistant''"
  by (auto simp: fallback_def assistant_def split: option.splits result_method.splits if_splits)

lemma replies_role:
  "list_all (\<lambda>m. role m = ''assistant'') (replies (get_response_from_agent rs msg h))"
  by (auto simp: get_response_from_agent_def response_body_def Let_def list_all_iff assistant_def
      split: sum.splits dest: yielded_role fallback_role)

lemma app_replies_nonempty:
  "replies (RoutingAgentApp_get_response_from_agent self pum msg h) \<noteq> []"
  by (simp add: RoutingAgentApp_get_response_from_agent_def app_response_body_def Let_def
      split: option.splits sum.splits)

lemma app_not_propagated:
  "propagated (RoutingAgentApp_get_response_from_agent self pum msg h) = None"
  by (simp add: RoutingAgentApp_get_response_from_agent_def app_response_body_def Let_def
      split: option.splits sum.splits)

lemma app_replies_role:
  "list_all (\<lambda>m. role m = ''assistant'')
     (replies (RoutingAgentApp_get_response_from_agent self pum msg h))"
  by (simp add: RoutingAgentApp_get_response_from_agent_def app_response_body_def Let_def
      assistant_def split: option.splits sum.splits)

text \<open>
  Claim C5. Whatever events the stream delivers, and whether it ends or raises, the
  contents yielded by the aggregation loop of the OpenAI host agent form a chain: each
  one is a prefix of every later one, and so is no longer than it. The accumulated text
  is only ever extended.
\<close>

theorem aggregation_yields_monotone:
  "sorted_wrt (\<lambda>a b. prefix (content a) (content b) \<and> length (content a) \<le> length (content b))
     (yielded (stream_loop [] es f))"
proof -
  have "sorted_wrt (\<lambda>a b. prefix (content a) (content b)) (yielded (stream_loop [] es f))"
    by (rule yielded_prefix_chain)
  then show ?thesis
    by (rule sorted_wrt_mono_rel [rotated]) (simp add: prefix_length_le)
qed

section \<open>The placeholder reply\<close>

text \<open>
  For a streaming invocation consumed by the aggregation loop of the OpenAI host agent:
  when the loop stops with no text accumulated, the handler's last reply is the fixed
  placeholder \<^verbatim>\<open>No response received from the agent.\<close>; when the stream ends without
  an exception the last reply of the handler is never the empty string; and when it ends
  so and the loop has yielded nothing, the placeholder is the only reply.
\<close>

lemma placeholder_is_last_reply:
  assumes "run_streamed msg = Inr sr"
  shows "(final_text (stream_loop [] (events (stream_events sr)) (failure (stream_events sr))) = [] \<longrightarrow>
            replies (get_response_from_agent run_streamed msg h) \<noteq> [] \<and>
            last (replies (get_response_from_agent run_streamed msg h)) =
              ChatMessage ''assistant'' ''No response received from the agent.'')
       \<and> (\<not> raised (stream_loop [] (events (stream_events sr)) (failure (stream_events sr))) \<longrightarrow>
            replies (get_response_from_agent run_streamed msg h) \<noteq> [] \<and>
            content (last (replies (get_response_from_agent run_streamed msg h))) \<noteq> [])
       \<and> (yielded (stream_loop [] (events (stream_events sr)) (failure (stream_events sr))) = [] \<and>
          \<not> raised (stream_loop [] (events (stream_events sr)) (failure (stream_events sr))) \<longrightarrow>
            replies (get_response_from_agent run_streamed msg h) =
              [ChatMessage ''assistant'' ''No response received from the agent.''])"
proof -
  define lr where "lr = stream_loop [] (events (stream_events sr)) (failure (stream_events sr))"
  have r: "replies (get_response_from_agent run_streamed msg h) =
             yielded lr @ (if raised lr then fallback sr else [])
             @ (if final_text lr = [] then [assistant no_response] else [])"
    using assms by (simp add: get_response_from_agent_def response_body_def Let_def lr_def)
  have ft: "final_text lr = (if yielded lr = [] then [] else content (last (yielded lr)))"
    unfolding lr_def by (rule final_text_last_yield)
  have a: "final_text lr = [] \<longrightarrow>
      replies (get_response_from_agent run_streamed msg h) \<noteq> [] \<and>
      last (replies (get_response_from_agent run_streamed msg h)) =
        ChatMessage ''assistant'' ''No response received from the agent.''"
    by (simp add: r assistant_def no_response_def)
  have b: "\<not> raised lr \<longrightarrow>
      replies (get_response_from_agent run_streamed msg h) \<noteq> [] \<and>
      content (last (replies (get_response_from_agent run_streamed msg h))) \<noteq> []"
  proof (cases "final_text lr = []")
    case True
    then show ?thesis by (simp add: r assistant_def no_response_def)
  next
    case False
    with ft have "yielded lr \<noteq> []" "content (last (yielded lr)) = final_text lr"
      by (auto split: if_splits)
    with False show ?thesis by (simp add: r)
  qed
  have c: "yielded lr = [] \<and> \<not> raised lr \<longrightarrow>
      replies (get_response_from_agent run_streamed msg h) =
        [ChatMessage ''assistant'' ''No response received from the agent.'']"
    using ft by (simp add: r assistant_def no_response_def)
  from a b c show ?thesis unfolding lr_def by blast
qed

lemma placeholder_is_last_reply_example:
  "final_text (stream_loop [] [ObjEvent (Some ''agent_updated_stream_event'') False None None] None) = []
   \<and> \<not> raised (stream_loop [] [ObjEvent (Some ''agent_updated_stream_event'') False None None] None)
   \<and> replies (get_response_from_agent
        (\<lambda>m. Inr (StreamResult (EventStream [ObjEvent (Some ''agent_updated_stream_event'') False None None] None) None ''RunResultStreaming''))
        ''Who won?'' []) = [ChatMessage ''assistant'' ''No response received from the agent.'']"
  using placeholder_is_last_reply [of "\<lambda>m. Inr (StreamResult (EventStream [ObjEvent (Some ''agent_updated_stream_event'') False None None] None) None ''RunResultStreaming'')"
       "''Who won?''" "StreamResult (EventStream [ObjEvent (Some ''agent_updated_stream_event'') False None None] None) None ''RunResultStreaming''" "[]"]
  by (simp add: process_event_def dispatch_event_def get_response_from_agent_def response_body_def
       emit_def assistant_def no_response_def)

text \<open>
  Claim C1, evaluated where it fails. The stream delivers one event whose \<^verbatim>\<open>content\<close>
  is the empty string and ends. Lines 90 to 95 append the content and yield without the
  test of line 68 (\<^verbatim>\<open>if delta_text\<close>, yield only if there is actual content), and so do
  lines 75 to 80 for \<^verbatim>\<open>data.content\<close>: the caller receives a reply whose content is
  empty, and the placeholder only after it. An empty text delta yields nothing.
\<close>

theorem empty_content_yields_empty_reply:
  "get_response_from_agent
     (\<lambda>m. Inr (StreamResult
                 (EventStream [ObjEvent (Some ''message'') False None (Some (PyStr ''''))] None)
                 None ''RunResultStreaming''))
     ''Who won?'' []
   = ChatResult
       [ChatMessage ''assistant'' '''',
        ChatMessage ''assistant'' ''No response received from the agent.'']
       None
   \<and> stream_loop [] [ObjEvent (Some ''message'') False None (Some (PyStr ''''))] None
     = LoopResult [ChatMessage ''assistant'' ''''] '''' False
   \<and> stream_loop []
       [ObjEvent (Some ''raw_response_event'') False
          (Some (Data ''ResponseOutputItemDoneEvent'' None (Some (PyStr '''')))) None] None
     = LoopResult [ChatMessage ''assistant'' ''''] '''' False
   \<and> stream_loop [] [text_delta ''''] None = LoopResult [] '''' False"
  by (simp add: get_response_from_agent_def response_body_def text_delta_def
      emit_def fallback_def assistant_def process_event_def dispatch_event_def
      append_and_yield_def no_response_def)

section \<open>The chat boundary\<close>

text \<open>
  Claim C2, the counterexample to the claim as stated. The stream delivers one text
  delta and then raises, and awaiting the final result raises too: both exceptions are
  absorbed by the inner handlers of the OpenAI host agent, and the only reply is the
  partial text. No error reply is produced.
\<close>

theorem stream_failure_gives_no_error_reply:
  "get_response_from_agent
     (\<lambda>m. Inr (StreamResult
                 (EventStream [text_delta ''Hi''] (Some (Exception ''connection lost'')))
                 (Some ResultRaises) ''RunResultStreaming''))
     ''Who won?'' []
   = ChatResult [ChatMessage ''assistant'' ''Hi''] None
   \<and> raised (stream_loop [] [text_delta ''Hi''] (Some (Exception ''connection lost'')))"
  by (simp add: get_response_from_agent_def response_body_def process_event_text_delta
      emit_def fallback_def assistant_def)

text \<open>
  Claim C2, as amended. For every message, in both host agents, the handler yields at
  least one reply, every reply has the role \<^verbatim>\<open>assistant\<close>, and no exception leaves the
  handler. An exception raised by \<^verbatim>\<open>Runner.run_streamed\<close> (OpenAI variant) or by
  \<^verbatim>\<open>process_user_message\<close> (Azure AI Foundry variant) becomes the textual error reply
  of the outer handler. In the OpenAI variant, once \<^verbatim>\<open>Runner.run_streamed\<close> has
  returned, an exception raised while the stream is consumed is absorbed: the replies are
  the contents streamed before it, then the fallback reply, then the placeholder when no
  text was accumulated, and no error reply is added. The fallback reply is
  \<^verbatim>\<open>str(stream_result)\<close> when there is no \<^verbatim>\<open>result\<close> attribute, nothing when
  \<^verbatim>\<open>result()\<close> raises or returns a falsy value, and the \<^verbatim>\<open>str\<close> of the final result
  otherwise.
\<close>

theorem chat_boundary_always_replies:
  "replies (get_response_from_agent run_streamed msg h) \<noteq> []
   \<and> propagated (get_response_from_agent run_streamed msg h) = None
   \<and> list_all (\<lambda>m. role m = ''assistant'') (replies (get_response_from_agent run_streamed msg h))
   \<and> get_response_from_agent (\<lambda>m. Inl e) msg h =
       ChatResult
         [ChatMessage ''assistant''
            ''An error occurred while processing your request. Please check the server logs for details.'']
         None
   \<and> replies (RoutingAgentApp_get_response_from_agent self process_user_message msg h) \<noteq> []
   \<and> propagated (RoutingAgentApp_get_response_from_agent self process_user_message msg h) = None
   \<and> list_all (\<lambda>m. role m = ''assistant'')
        (replies (RoutingAgentApp_get_response_from_agent self process_user_message msg h))
   \<and> RoutingAgentApp_get_response_from_agent (self\<lparr>routing_agent := Some ra\<rparr>) (\<lambda>m. Inl e) msg h =
       ChatResult
         [ChatMessage ''assistant'' (thinking_face @ '' **Processing your request...**''),
          ChatMessage ''assistant''
            (cross_mark @ '' **An error occurred**: '' @ message e @ [LF, LF]
             @ ''Please check the server logs for details.'')]
         None
   \<and> get_response_from_agent (\<lambda>m. Inr sr) msg h =
       ChatResult
         (yielded (stream_loop [] (events (stream_events sr)) (failure (stream_events sr)))
          @ (if raised (stream_loop [] (events (stream_events sr)) (failure (stream_events sr)))
             then fallback sr else [])
          @ (if final_text (stream_loop [] (events (stream_events sr)) (failure (stream_events sr))) = []
             then [ChatMessage ''assistant'' ''No response received from the agent.''] else []))
         None
   \<and> fallback (StreamResult s None str) = [ChatMessage ''assistant'' str]
   \<and> fallback (StreamResult s (Some ResultRaises) str) = []
   \<and> fallback (StreamResult s (Some (ResultReturns t r)) str) =
       (if t then [ChatMessage ''assistant'' r] else [])"
proof -
  have c: "get_response_from_agent (\<lambda>m. Inr sr) msg h =
       ChatResult
         (yielded (stream_loop [] (events (stream_events sr)) (failure (stream_events sr)))
          @ (if raised (stream_loop [] (events (stream_events sr)) (failure (stream_events sr)))
             then fallback sr else [])
          @ (if final_text (stream_loop [] (events (stream_events sr)) (failure (stream_events sr))) = []
             then [ChatMessage ''assistant'' ''No response received from the agent.''] else []))
         None"
    by (simp add: get_response_from_agent_def response_body_def Let_def assistant_def
        no_response_def)
  have f1: "fallback (StreamResult s None str) = [ChatMessage ''assistant'' str]"
    by (simp add: fallback_def assistant_def)
  have f2: "fallback (StreamResult s (Some ResultRaises) str) = []"
    by (simp add: fallback_def)
  have f3: "fallback (StreamResult s (Some (ResultReturns t r)) str) =
       (if t then [ChatMessage ''assistant'' r] else [])"
    by (simp add: fallback_def assistant_def)
  have a: "get_response_from_agent (\<lambda>m. Inl e) msg h =
       ChatResult
         [ChatMessage ''assistant''
            ''An error occurred while processing your request. Please check the server logs for details.'']
         None"
    by (simp add: get_response_from_agent_def response_body_def assistant_def error_occurred_def)
  have b: "RoutingAgentApp_get_response_from_agent (self\<lparr>routing_agent := Some ra\<rparr>) (\<lambda>m. Inl e) msg h =
       ChatResult
         [ChatMessage ''assistant'' (thinking_face @ '' **Processing your request...**''),
          ChatMessage ''assistant''
            (cross_mark @ '' **An error occurred**: '' @ message e @ [LF, LF]
             @ ''Please check the server logs for details.'')]
         None"
    by (simp add: RoutingAgentApp_get_response_from_agent_def app_response_body_def
        assistant_def Let_def)
  show ?thesis
    by (intro conjI a b c f1 f2 f3 replies_nonempty not_propagated replies_role
        app_replies_nonempty app_not_propagated app_replies_role)
qed

section \<open>Text deltas\<close>

text \<open>
  Claim C3. For a stream of text deltas only, the text accumulated by the host agent's
  loop is the concatenation of the payloads in arrival order (the deltas \<^verbatim>\<open>Hel\<close>,
  \<^verbatim>\<open>lo\<close> give \<^verbatim>\<open>Hello\<close>) and the loop does not raise. The remote agent's \<^verbatim>\<open>stream\<close>
  yields one incomplete dictionary per non-empty delta and signals completion once, last,
  after the stream has ended; for any stream whatever, every dictionary it yields before
  the last one has \<^verbatim>\<open>is_task_complete\<close> false.
\<close>

theorem text_deltas_concatenate:
  "final_text (stream_loop [] (map text_delta ds) None) = concat ds
   \<and> \<not> raised (stream_loop [] (map text_delta ds) None)
   \<and> final_text (stream_loop [] [text_delta ''Hel'', text_delta ''lo''] None) = ''Hello''
   \<and> stream (Some a) (\<lambda>ag u. Inr (EventStream (map text_delta ds) None)) user_input session_id =
       map (\<lambda>d. [(''is_task_complete'', DBool False),
                   (''require_user_input'', DBool False),
                   (''content'', DContent (PyStr d))])
         (filter (\<lambda>d. d \<noteq> []) ds)
       @ [[(''is_task_complete'', DBool True),
           (''require_user_input'', DBool False),
           (''content'', DContent (PyStr ''Task completed successfully.''))]]
   \<and> list_all (\<lambda>d. map_of d ''is_task_complete'' = Some (DBool False))
        (butlast (stream self_agent run_streamed user_input session_id))"
proof -
  have "final_text (stream_loop [] (map text_delta [''Hel'', ''lo'']) None) = concat [''Hel'', ''lo'']"
    by (rule final_text_text_deltas [of "[]", simplified])
  then have ex: "final_text (stream_loop [] [text_delta ''Hel'', text_delta ''lo''] None) = ''Hello''"
    by simp
  have st: "stream (Some a) (\<lambda>ag u. Inr (EventStream (map text_delta ds) None)) user_input session_id =
       map (\<lambda>d. [(''is_task_complete'', DBool False),
                   (''require_user_input'', DBool False),
                   (''content'', DContent (PyStr d))])
         (filter (\<lambda>d. d \<noteq> []) ds)
       @ [[(''is_task_complete'', DBool True),
           (''require_user_input'', DBool False),
           (''content'', DContent (PyStr ''Task completed successfully.''))]]"
    by (simp add: stream_def stream_yields_text_deltas)
  have ft: "final_text (stream_loop [] (map text_delta ds) None) = concat ds"
    using final_text_text_deltas [of "[]" ds] by simp
  show ?thesis
    by (intro conjI ft raised_text_deltas ex st stream_butlast_not_complete)
qed

section \<open>Unknown events\<close>

text \<open>An event of no recognised shape that has a \<^verbatim>\<open>type\<close> attribute (and an \<^verbatim>\<open>item\<close>
  when it is a \<^verbatim>\<open>run_item_stream_event\<close>) is skipped wherever it stands in the stream.\<close>

lemma typed_unknown_event_skipped:
  assumes "event_type e = Some t"
    and "t = ''run_item_stream_event'' \<longrightarrow> event_has_item e"
    and "\<forall>acc. dispatch_event acc e = Continue acc None"
  shows "stream_loop acc (xs @ e # ys) f = stream_loop acc (xs @ ys) f"
proof (induction xs arbitrary: acc)
  case Nil
  from assms have "process_event acc e = Continue acc None"
    by (auto simp: process_event_def)
  then show ?case by (simp add: emit_def)
next
  case (Cons x xs)
  then show ?case by (simp split: step.splits)
qed

text \<open>So is, for one, an event of a type the handler does not know.\<close>

lemma new_event_type_skipped:
  "stream_loop acc (xs @ ObjEvent (Some ''tool_progress_event'') False None None # ys) f =
     stream_loop acc (xs @ ys) f"
  by (rule typed_unknown_event_skipped [where t = "''tool_progress_event''"])
    (simp_all add: dispatch_event_def)

text \<open>
  Claim C4, evaluated where it fails. An object with no \<^verbatim>\<open>type\<close> attribute, no
  \<^verbatim>\<open>data\<close> and no \<^verbatim>\<open>content\<close> stands between the text deltas \<^verbatim>\<open>a\<close> and \<^verbatim>\<open>b\<close>. The
  guarded \<^verbatim>\<open>if\<close>/\<^verbatim>\<open>elif\<close> chain alone would skip it, but the unguarded read of
  \<^verbatim>\<open>event.type\<close> on line 54 raises: the loop stops after \<^verbatim>\<open>a\<close>, the fallback reply
  follows, and \<^verbatim>\<open>b\<close> is lost. Without the event the replies are \<^verbatim>\<open>a\<close> and \<^verbatim>\<open>ab\<close>.
\<close>

theorem unknown_event_without_type_aborts:
  "get_response_from_agent
     (\<lambda>m. Inr (StreamResult
                 (EventStream [text_delta ''a'', ObjEvent None False None None, text_delta ''b''] None)
                 None ''RunResultStreaming''))
     ''Who won?'' []
   = ChatResult [ChatMessage ''assistant'' ''a'', ChatMessage ''assistant'' ''RunResultStreaming''] None
   \<and> get_response_from_agent
     (\<lambda>m. Inr (StreamResult
                 (EventStream [text_delta ''a'', text_delta ''b''] None)
                 None ''RunResultStreaming''))
     ''Who won?'' []
   = ChatResult [ChatMessage ''assistant'' ''a'', ChatMessage ''assistant'' ''ab''] None
   \<and> dispatch_event ''a'' (ObjEvent None False None None) = Continue ''a'' None
   \<and> process_event ''a'' (ObjEvent None False None None) = Raised"
  by (simp add: get_response_from_agent_def response_body_def text_delta_def
      emit_def fallback_def assistant_def process_event_def dispatch_event_def
      append_and_yield_def)

section \<open>The non-streaming invocation\<close>

text \<open>
  Claim C6, the counterexample to the claim as stated. The first call of \<^verbatim>\<open>Runner.run\<close>
  raises and a second one would succeed: \<^verbatim>\<open>invoke\<close> makes the one call and then
  returns a dictionary that reports the error. It does not fail, and the dictionary
  carries no address. On an agent that is not initialised, \<^verbatim>\<open>invoke\<close> makes no call at
  all.
\<close>

theorem invoke_returns_error_dict_on_failure:
  "invoke (Some (Agent ''Sports Results Agent''
                  ''You are a helpful agent that searches the web for sports results.''
                  [''WebSearchTool'']))
     (\<lambda>n a u. if n = 0 then Inl (Exception ''connection refused'') else Inr ''Pirates 3-2'')
     0 ''Show score for Pirates game last night'' None
   = (Inr [(''is_task_complete'', DBool False),
           (''require_user_input'', DBool True),
           (''content'', DContent (PyStr ''Error processing request: connection refused''))],
      1)
   \<and> invoke None
     (\<lambda>n a u. if n = 0 then Inl (Exception ''connection refused'') else Inr ''Pirates 3-2'')
     0 ''Show score for Pirates game last night'' None
   = (Inr [(''is_task_complete'', DBool False),
           (''require_user_input'', DBool True),
           (''content'',
            DContent (PyStr ''Agent not initialized. Please call initialize() first.''))],
      0)"
  by (simp add: invoke_def)

text \<open>
  Claim C6, as amended. \<^verbatim>\<open>invoke\<close> on an initialised agent calls \<^verbatim>\<open>Runner.run\<close>
  exactly once, whatever the outcome, and not at all on an uninitialised agent. When the
  run returns, the dictionary holds the final output; when the run raises an exception
  that is a subclass of \<^verbatim>\<open>Exception\<close> (the only exceptions modelled here, and the only
  ones line 91 catches), \<^verbatim>\<open>invoke\<close> does not raise but returns the dictionary whose
  content is \<^verbatim>\<open>Error processing request: \<close> followed by the text of the exception.
\<close>

theorem invoke_single_attempt:
  "snd (invoke (Some a) runner calls user_input session_id) = Suc calls
   \<and> snd (invoke None runner calls user_input session_id) = calls
   \<and> \<not> isl (fst (invoke self_agent runner calls user_input session_id))
   \<and> (runner calls a user_input = Inr final_output \<longrightarrow>
        fst (invoke (Some a) runner calls user_input session_id) =
          Inr [(''is_task_complete'', DBool True),
               (''require_user_input'', DBool False),
               (''content'', DContent (PyStr final_output))])
   \<and> (runner calls a user_input = Inl e \<longrightarrow>
        fst (invoke (Some a) runner calls user_input session_id) =
          Inr [(''is_task_complete'', DBool False),
               (''require_user_input'', DBool True),
               (''content'', DContent (PyStr (''Error processing request: '' @ message e)))])"
  by (simp add: invoke_def split: option.splits sum.splits)

theorem invoke_single_attempt_witness:
  "(\<lambda>n a u. if n = (0::nat) then Inr ''Pirates 3-2'' else Inl (Exception ''late''))
      0 (Agent ''Sports Results Agent'' ''search'' [''WebSearchTool'']) ''score?'' = Inr ''Pirates 3-2''
   \<and> (\<lambda>n a u. if n = (0::nat) then Inr ''Pirates 3-2'' else Inl (Exception ''late''))
      1 (Agent ''Sports Results Agent'' ''search'' [''WebSearchTool'']) ''score?'' = Inl (Exception ''late'')
   \<and> invoke (Some (Agent ''Sports Results Agent'' ''search'' [''WebSearchTool'']))
        (\<lambda>n a u. if n = 0 then Inr ''Pirates 3-2'' else Inl (Exception ''late''))
        0 ''score?'' None
      = (Inr [(''is_task_complete'', DBool True),
              (''require_user_input'', DBool False),
              (''content'', DContent (PyStr ''Pirates 3-2''))], 1)
   \<and> invoke (Some (Agent ''Sports Results Agent'' ''search'' [''WebSearchTool'']))
        (\<lambda>n a u. if n = 0 then Inr ''Pirates 3-2'' else Inl (Exception ''late''))
        1 ''score?'' None
      = (Inr [(''is_task_complete'', DBool False),
              (''require_user_input'', DBool True),
              (''content'', DContent (PyStr ''Error processing request: late''))], 2)"
  using invoke_single_attempt
      [of "Agent ''Sports Results Agent'' ''search'' [''WebSearchTool'']"
          "\<lambda>n a u. if n = 0 then Inr ''Pirates 3-2'' else Inl (Exception ''late'')"
          0 "''score?''" None None "''Pirates 3-2''" "Exception ''late''"]
    invoke_single_attempt
      [of "Agent ''Sports Results Agent'' ''search'' [''WebSearchTool'']"
          "\<lambda>n a u. if n = 0 then Inr ''Pirates 3-2'' else Inl (Exception ''late'')"
          1 "''score?''" None None "''Pirates 3-2''" "Exception ''late''"]
  by (simp add: prod_eq_iff)

text \<open>
  Claim C9. \<^verbatim>\<open>invoke\<close> always returns a dictionary; its keys are exactly
  \<^verbatim>\<open>is_task_complete\<close>, \<^verbatim>\<open>require_user_input\<close> and \<^verbatim>\<open>content\<close>; the two flags are
  each other's negation; and \<^verbatim>\<open>is_task_complete\<close> is true exactly when the agent is
  initialised and the run returns.
\<close>

theorem invoke_dict_invariant:
  "\<exists>d b. fst (invoke self_agent runner calls user_input session_id) = Inr d
     \<and> map fst d = [''is_task_complete'', ''require_user_input'', ''content'']
     \<and> map_of d ''is_task_complete'' = Some (DBool b)
     \<and> map_of d ''require_user_input'' = Some (DBool (\<not> b))
     \<and> (\<exists>c. map_of d ''content'' = Some (DContent c))
     \<and> b = (\<exists>a out. self_agent = Some a \<and> runner calls a user_input = Inr out)"
proof (cases self_agent)
  case None
  then show ?thesis by (auto simp: invoke_def)
next
  case (Some a)
  show ?thesis
  proof (cases "runner calls a user_input")
    case (Inl e)
    with Some show ?thesis by (auto simp: invoke_def)
  next
    case (Inr out)
    with Some show ?thesis by (auto simp: invoke_def)
  qed
qed

section \<open>Start-up and shutdown of the Azure AI Foundry host agent\<close>

lemma missing_vars_set:
  "set (missing_vars env) = {v. v \<in> set required_env_vars \<and> (env v = None \<or> env v = Some [])}"
proof -
  have "\<not> getenv_truthy env v \<longleftrightarrow> env v = None \<or> env v = Some []" for v
    by (cases "env v") (simp_all add: getenv_truthy_def)
  then show ?thesis by (auto simp: missing_vars_def)
qed

lemma run_missing:
  "missing_vars env \<noteq> [] \<Longrightarrow>
     run self env w =
       (self,
        [Print (cross_mark @ '' Missing required environment variables: ''
                @ join '', '' (missing_vars env)),
         Print ''Please set these environment variables before running the application.''],
        None)"
  by (simp add: run_def Let_def)

lemma initialize_creates:
  "\<exists>addrs. RoutingAgent_create addrs \<in> set (fst (snd (initialize_routing_agent self env outcome)))"
  by (cases outcome) (simp_all add: initialize_routing_agent_def Let_def)

lemma run_complete_creates:
  assumes "missing_vars env = []"
  shows "\<exists>addrs. RoutingAgent_create addrs \<in> set (fst (snd (run self env w)))"
proof -
  obtain self1 fx1 ex where i: "initialize_routing_agent self env (init w) = (self1, fx1, ex)"
    by (metis prod_cases3)
  from initialize_creates [of self env "init w"] i
  obtain addrs where a: "RoutingAgent_create addrs \<in> set fx1" by auto
  show ?thesis
  proof (cases ex)
    case (Some e)
    with assms i a show ?thesis by (auto simp: run_def Let_def)
  next
    case None
    obtain self2 fx2 where l: "launch_interface self1 (ui w) = (self2, fx2)" by (metis prod.exhaust)
    obtain self3 fx3 where c: "cleanup_routing_agent self2 (agent_cleanup_raises w) = (self3, fx3)"
      by (metis prod.exhaust)
    from assms i a None l c show ?thesis by (auto simp: run_def Let_def)
  qed
qed

text \<open>
  Claim C7. When a required setting is unset or empty, \<^verbatim>\<open>run\<close> prints the message that
  lists the missing settings by name, in the order of the source's list and separated
  by commas, and returns without doing anything else. The missing settings are exactly
  the required ones that are unset or empty, and the routing agent is created (the first
  network call) exactly when none is missing.
\<close>

theorem missing_settings_stop_startup:
  "(missing_vars env \<noteq> [] \<longrightarrow>
      run self env w =
        (self,
         [Print (cross_mark @ '' Missing required environment variables: ''
                 @ join '', '' (missing_vars env)),
          Print ''Please set these environment variables before running the application.''],
         None))
   \<and> set (missing_vars env) =
       {v. v \<in> set required_env_vars \<and> (env v = None \<or> env v = Some [])}
   \<and> (\<exists>addrs. RoutingAgent_create addrs \<in> set (fst (snd (run self env w))))
       = (missing_vars env = [])"
proof -
  have "(\<exists>addrs. RoutingAgent_create addrs \<in> set (fst (snd (run self env w))))
       = (missing_vars env = [])"
  proof (cases "missing_vars env = []")
    case True
    then show ?thesis using run_complete_creates by simp
  next
    case False
    then show ?thesis by (simp add: run_missing)
  qed
  then show ?thesis using run_missing missing_vars_set by blast
qed

theorem missing_settings_stop_startup_witness:
  "missing_vars Map.empty \<noteq> []
   \<and> run \<lparr>routing_agent = None, demo = None\<rparr> Map.empty
        (World (Initialized ''router'' ''asst_1'') Launch_returns None) =
       (\<lparr>routing_agent = None, demo = None\<rparr>,
        [Print (cross_mark
                @ '' Missing required environment variables: AZURE_AI_AGENT_ENDPOINT, AZURE_AI_AGENT_MODEL_DEPLOYMENT_NAME''),
         Print ''Please set these environment variables before running the application.''],
        None)"
proof -
  have m: "missing_vars Map.empty =
      [''AZURE_AI_AGENT_ENDPOINT'', ''AZURE_AI_AGENT_MODEL_DEPLOYMENT_NAME'']"
    by (simp add: missing_vars_def required_env_vars_def getenv_truthy_def)
  then have h: "missing_vars Map.empty \<noteq> []" by simp
  from missing_settings_stop_startup [of Map.empty "\<lparr>routing_agent = None, demo = None\<rparr>"
      "World (Initialized ''router'' ''asst_1'') Launch_returns None"] h
  show ?thesis by (simp add: m)
qed

text \<open>
  Claim C8. After \<^verbatim>\<open>cleanup_routing_agent\<close> the reference to the routing agent is
  cleared, and a second call changes nothing and does nothing. The first call on an
  application that holds a routing agent releases it once.
\<close>

theorem cleanup_routing_agent_idempotent:
  "routing_agent (fst (cleanup_routing_agent self x)) = None
   \<and> cleanup_routing_agent (fst (cleanup_routing_agent self x)) y =
       (fst (cleanup_routing_agent self x), [])
   \<and> count_list (snd (cleanup_routing_agent (self\<lparr>routing_agent := Some ra\<rparr>) x))
        RoutingAgent_cleanup = 1"
  by (simp add: cleanup_routing_agent_def split: option.splits)

section \<open>The advertised address\<close>

text \<open>
  Claim C10. Whatever host and port \<^verbatim>\<open>get_agent_card\<close> is given, the card is the same
  and its \<^verbatim>\<open>url\<close> is \<^verbatim>\<open>http://localhost:10001/\<close> for the sports results agent and
  \<^verbatim>\<open>http://localhost:10002/\<close> for the sports news agent, while \<^verbatim>\<open>main\<close> binds the
  server to the host and port it was given.
\<close>

theorem agent_card_url_constant:
  "url (get_agent_card_sports_results host port) = ''http://localhost:10001/''
   \<and> url (get_agent_card_sports_news host port) = ''http://localhost:10002/''
   \<and> get_agent_card_sports_results host port = get_agent_card_sports_results host' port'
   \<and> get_agent_card_sports_news host port = get_agent_card_sports_news host' port'
   \<and> url (fst (main_sports_results host port)) = ''http://localhost:10001/''
   \<and> snd (main_sports_results host port) = (host, port)
   \<and> url (fst (main_sports_news host port)) = ''http://localhost:10002/''
   \<and> snd (main_sports_news host port) = (host, port)"
  by (simp add: get_agent_card_sports_results_def get_agent_card_sports_news_def
      main_sports_results_def main_sports_news_def)

end
